theory Spec2Isabelle
  imports Complex_Main "HOL-Library.Product_Lexorder" "HOL-Library.Char_ord"
    "HOL-Library.List_Lexorder"
begin

section \<open>Numbers of the data frames\<close>

text \<open>
  Every numeric column of the pandas tables is a float64 column. A cell is modelled as a
  finite value, one of the two infinities, or NaN (which is also how pandas stores a
  missing value). Finite values are idealised as reals: arithmetic on them is exact and
  never overflows, and there is no negative zero. The special values follow IEEE 754 as
  numpy applies it elementwise: a division by zero yields an infinity or NaN and raises
  nothing, and every comparison with NaN is false.
\<close>

datatype fl = Fin real | PInf | NInf | NaN

fun is_Fin :: "fl \<Rightarrow> bool" where
  "is_Fin (Fin a) = True"
| "is_Fin PInf = False"
| "is_Fin NInf = False"
| "is_Fin NaN = False"

fun val :: "fl \<Rightarrow> real" where
  "val (Fin a) = a"
| "val PInf = 0"
| "val NInf = 0"
| "val NaN = 0"

fun isna :: "fl \<Rightarrow> bool" where
  "isna NaN = True"
| "isna (Fin a) = False"
| "isna PInf = False"
| "isna NInf = False"

fun fneg :: "fl \<Rightarrow> fl" where
  "fneg (Fin a) = Fin (- a)"
| "fneg PInf = NInf"
| "fneg NInf = PInf"
| "fneg NaN = NaN"

fun fadd :: "fl \<Rightarrow> fl \<Rightarrow> fl" where
  "fadd (Fin a) (Fin b) = Fin (a + b)"
| "fadd (Fin a) PInf = PInf"
| "fadd (Fin a) NInf = NInf"
| "fadd (Fin a) NaN = NaN"
| "fadd PInf (Fin b) = PInf"
| "fadd PInf PInf = PInf"
| "fadd PInf NInf = NaN"
| "fadd PInf NaN = NaN"
| "fadd NInf (Fin b) = NInf"
| "fadd NInf PInf = NaN"
| "fadd NInf NInf = NInf"
| "fadd NInf NaN = NaN"
| "fadd NaN y = NaN"

definition fsub :: "fl \<Rightarrow> fl \<Rightarrow> fl" where
  "fsub x y = fadd x (fneg y)"

fun fmul :: "fl \<Rightarrow> fl \<Rightarrow> fl" where
  "fmul (Fin a) (Fin b) = Fin (a * b)"
| "fmul (Fin a) PInf = (if a = 0 then NaN else if 0 < a then PInf else NInf)"
| "fmul (Fin a) NInf = (if a = 0 then NaN else if 0 < a then NInf else PInf)"
| "fmul (Fin a) NaN = NaN"
| "fmul PInf (Fin b) = (if b = 0 then NaN else if 0 < b then PInf else NInf)"
| "fmul PInf PInf = PInf"
| "fmul PInf NInf = NInf"
| "fmul PInf NaN = NaN"
| "fmul NInf (Fin b) = (if b = 0 then NaN else if 0 < b then NInf else PInf)"
| "fmul NInf PInf = NInf"
| "fmul NInf NInf = PInf"
| "fmul NInf NaN = NaN"
| "fmul NaN y = NaN"

fun fdiv :: "fl \<Rightarrow> fl \<Rightarrow> fl" where
  "fdiv (Fin a) (Fin b) =
     (if b \<noteq> 0 then Fin (a / b)
      else if a = 0 then NaN else if 0 < a then PInf else NInf)"
| "fdiv (Fin a) PInf = Fin 0"
| "fdiv (Fin a) NInf = Fin 0"
| "fdiv (Fin a) NaN = NaN"
| "fdiv PInf (Fin b) = (if 0 \<le> b then PInf else NInf)"
| "fdiv PInf PInf = NaN"
| "fdiv PInf NInf = NaN"
| "fdiv PInf NaN = NaN"
| "fdiv NInf (Fin b) = (if 0 \<le> b then NInf else PInf)"
| "fdiv NInf PInf = NaN"
| "fdiv NInf NInf = NaN"
| "fdiv NInf NaN = NaN"
| "fdiv NaN y = NaN"

text \<open>\<open>np.floor\<close>: the result stays a float; the special values pass through.\<close>

fun ffloor :: "fl \<Rightarrow> fl" where
  "ffloor (Fin a) = Fin (of_int \<lfloor>a\<rfloor>)"
| "ffloor PInf = PInf"
| "ffloor NInf = NInf"
| "ffloor NaN = NaN"

fun fless :: "fl \<Rightarrow> fl \<Rightarrow> bool" where
  "fless (Fin a) (Fin b) = (a < b)"
| "fless (Fin a) PInf = True"
| "fless (Fin a) NInf = False"
| "fless (Fin a) NaN = False"
| "fless PInf y = False"
| "fless NInf (Fin b) = True"
| "fless NInf PInf = True"
| "fless NInf NInf = False"
| "fless NInf NaN = False"
| "fless NaN y = False"

fun fle :: "fl \<Rightarrow> fl \<Rightarrow> bool" where
  "fle (Fin a) (Fin b) = (a \<le> b)"
| "fle (Fin a) PInf = True"
| "fle (Fin a) NInf = False"
| "fle (Fin a) NaN = False"
| "fle PInf (Fin b) = False"
| "fle PInf PInf = True"
| "fle PInf NInf = False"
| "fle PInf NaN = False"
| "fle NInf (Fin b) = True"
| "fle NInf PInf = True"
| "fle NInf NInf = True"
| "fle NInf NaN = False"
| "fle NaN y = False"

text \<open>
  \<open>Series.sum()\<close> with the default \<open>skipna=True\<close>: NaN cells are left out, and the sum of
  no cells is 0.
\<close>

definition fsum :: "fl list \<Rightarrow> fl" where
  "fsum xs = foldr fadd (filter (\<lambda>x. \<not> isna x) xs) (Fin 0)"

text \<open>
  \<open>Series.cumsum()\<close> with the default \<open>skipna=True\<close>: a NaN cell stays NaN and does not
  enter the running total.
\<close>

fun cumsum_from :: "fl \<Rightarrow> fl list \<Rightarrow> fl list" where
  "cumsum_from acc [] = []"
| "cumsum_from acc (x # xs) =
     (if isna x then NaN # cumsum_from acc xs
      else fadd acc x # cumsum_from (fadd acc x) xs)"

definition cumsum :: "fl list \<Rightarrow> fl list" where
  "cumsum xs = cumsum_from (Fin 0) xs"

text \<open>
  The mean of a group skips NaN cells in numerator and denominator; a group with no
  value left has the mean NaN.
\<close>

definition fmean :: "fl list \<Rightarrow> fl" where
  "fmean xs =
     (let ys = filter (\<lambda>x. \<not> isna x) xs
      in if ys = [] then NaN else fdiv (fsum ys) (Fin (real (length ys))))"

text \<open>
  \<open>sort_values(col, ascending=False)\<close>: descending, NaN last. Rows with equal keys keep
  their order in the table (the sort is taken to be stable).
\<close>

fun desc_key :: "fl \<Rightarrow> nat \<times> real" where
  "desc_key PInf = (0, 0)"
| "desc_key (Fin a) = (1, - a)"
| "desc_key NInf = (2, 0)"
| "desc_key NaN = (3, 0)"

definition sort_values_desc :: "('a \<Rightarrow> fl) \<Rightarrow> 'a list \<Rightarrow> 'a list" where
  "sort_values_desc col df = sort_key (\<lambda>r. desc_key (col r)) df"

section \<open>Tables\<close>

text \<open>
  One row of the security table (\<open>stock_data_df\<close>); the table's index is the ticker
  symbol, which identifies the row.
\<close>

record stock_row =
  ticker :: string
  sector :: string
  industry :: string
  website :: string
  regularMarketPrice :: fl
  profitMargins :: fl
  beta :: fl
  marketCap :: fl
  trailingPE :: fl
  dividendYield :: fl
  week52Change :: fl

text \<open>
  One row of the sector metrics table (\<open>metrics_df_global\<close>). The column
  \<open>sector_wieghts\<close> is absent (\<open>None\<close>) until \<open>portfolio_optimization\<close> writes it.
\<close>

record metrics_row =
  m_sector :: string
  total_market_cap :: fl
  avg_pe :: fl
  avg_dividend_yield :: fl
  avg_1y_return :: fl
  avg_beta :: fl
  sector_wieghts :: "fl option"

text \<open>A row returned by \<open>extract_stock_wieght\<close>: the security and its new column.\<close>

record weighted_row =
  w_stock :: stock_row
  stock_wieght :: fl

text \<open>
  A row of \<open>merged_df\<close>, the table given to \<open>allocate_funds\<close>. The column \<open>shares\<close> is
  absent (\<open>None\<close>) until \<open>allocate_funds\<close> writes it.
\<close>

record merged_row =
  m_stock :: stock_row
  m_stock_wieght :: fl
  m_sector_wieghts :: fl
  final_wieght :: fl
  shares :: "fl option"

text \<open>A row of the table \<open>allocate_funds\<close> returns.\<close>

record alloc_row =
  ticker_symbol :: string
  a_industry :: string
  a_sector :: string
  a_website :: string
  a_shares :: fl
  a_price :: fl

definition m_ticker :: "merged_row \<Rightarrow> string" where
  "m_ticker r = ticker (m_stock r)"

definition m_price :: "merged_row \<Rightarrow> fl" where
  "m_price r = regularMarketPrice (m_stock r)"

section \<open>Stock selection\<close>

text \<open>
  \<open>DataFrame.nlargest(limit, col)\<close>: the \<open>limit\<close> rows with the largest value, in
  descending order, rows with equal values in table order, NaN rows only after all
  others; no row when \<open>limit\<close> is not positive.
\<close>

definition nlargest :: "int \<Rightarrow> ('a \<Rightarrow> fl) \<Rightarrow> 'a list \<Rightarrow> 'a list" where
  "nlargest n col df = take (nat n) (sort_values_desc col df)"

definition extract_stock_wieght :: "stock_row list \<Rightarrow> int \<Rightarrow> weighted_row list" where
  "extract_stock_wieght sector_group limit =
     (let sector_group1 = nlargest limit profitMargins sector_group;
          sector_group2 = filter (\<lambda>r. fless (Fin 0) (profitMargins r)) sector_group1;
          total = fsum (map profitMargins sector_group2)
      in map (\<lambda>r. \<lparr>w_stock = r, stock_wieght = fdiv (profitMargins r) total\<rparr>)
           sector_group2)"

text \<open>
  \<open>df.groupby('sector', group_keys=False).apply(f)\<close>: the groups are visited in ascending
  order of the sector name, each group keeps the table's row order, and the results are
  concatenated.
\<close>

definition groupby_sector_apply ::
  "(stock_row list \<Rightarrow> 'b list) \<Rightarrow> stock_row list \<Rightarrow> 'b list" where
  "groupby_sector_apply f df =
     concat (map (\<lambda>s. f (filter (\<lambda>r. sector r = s) df)) (sort (remdups (map sector df))))"

section \<open>Discrete allocation\<close>

text \<open>
  Line 102: the floor allocation. The new column is aligned with the table on the
  ticker index, which is unique, so each row receives the value computed from it.
\<close>

definition phase1_shares :: "fl \<Rightarrow> merged_row \<Rightarrow> fl" where
  "phase1_shares total_amount r =
     ffloor (fdiv (fmul total_amount (final_wieght r)) (m_price r))"

text \<open>
  One pass of the \<open>while True\<close> loop (lines 115 to 122). The state is the column
  \<open>df_orig['shares']\<close>, a list aligned with the rows of \<open>df_orig\<close>, and the residue.
  \<open>None\<close> is the \<open>break\<close>. The increment of \<open>df_res['shares']\<close> touches a copy that is
  never read again.
\<close>

definition phase2_step ::
  "merged_row list \<Rightarrow> merged_row list \<Rightarrow> fl list \<times> fl \<Rightarrow> (fl list \<times> fl) option" where
  "phase2_step df df_orig s =
     (let shares_col = fst s; residue = snd s;
          df_res = filter (\<lambda>r. fless (m_price r) residue) df
      in if df_res = [] then None
         else
           let c_price = cumsum (map m_price df_res);
               df_res2 = map fst (filter (\<lambda>rc. fless (snd rc) residue) (zip df_res c_price));
               shares_col2 =
                 map2 (\<lambda>r sh. if m_ticker r \<in> set (map m_ticker df_res2)
                                then fadd sh (Fin 1) else sh) df_orig shares_col;
               residue2 = fsub residue (fsum (map m_price df_res2))
           in Some (shares_col2, residue2))"

text \<open>The loop itself; a run that never reaches the \<open>break\<close> has the value \<open>None\<close>.\<close>

partial_function (option) phase2_loop ::
  "merged_row list \<Rightarrow> merged_row list \<Rightarrow> fl list \<times> fl \<Rightarrow> (fl list \<times> fl) option" where
  "phase2_loop df df_orig s =
     (case phase2_step df df_orig s of
        None \<Rightarrow> Some s
      | Some s2 \<Rightarrow> phase2_loop df df_orig s2)"

declare phase2_loop.simps [code]


text \<open>Line 106: the cash left after the floor allocation.\<close>

definition phase1_residue :: "merged_row list \<Rightarrow> fl \<Rightarrow> fl" where
  "phase1_residue df total_amount =
     fsub total_amount
       (fsum (map (\<lambda>r. fmul (phase1_shares total_amount r) (m_price r)) df))"

definition to_alloc_row :: "merged_row \<Rightarrow> fl \<Rightarrow> alloc_row" where
  "to_alloc_row r sh =
     \<lparr>ticker_symbol = m_ticker r, a_industry = industry (m_stock r),
      a_sector = sector (m_stock r), a_website = website (m_stock r),
      a_shares = sh, a_price = m_price r\<rparr>"

text \<open>
  \<open>allocate_funds\<close> with the default column names \<open>regularMarketPrice\<close> and
  \<open>final_wieght\<close> (lines 97 and 98 name these two columns directly). The column
  \<open>cumulative_price\<close> of line 98 is never read and is left out. The result is the
  returned table together with the caller's table \<open>df_orig\<close> as the call leaves it; a run
  whose loop never ends has the value \<open>None\<close>.
\<close>

definition allocate_funds ::
  "merged_row list \<Rightarrow> fl \<Rightarrow> (alloc_row list \<times> merged_row list) option" where
  "allocate_funds df_orig total_amount =
     (let df = sort_values_desc final_wieght df_orig;
          shares_col = map (phase1_shares total_amount) df_orig;
          residue = phase1_residue df total_amount
      in case phase2_loop df df_orig (shares_col, residue) of
           None \<Rightarrow> None
         | Some s \<Rightarrow>
             Some (map2 to_alloc_row df_orig (fst s),
                   map2 (\<lambda>r sh. r\<lparr>shares := Some sh\<rparr>) df_orig (fst s)))"

section \<open>The pipeline\<close>

text \<open>
  Lines 57 to 59: the inner join of the selected securities with the sector weights on
  the sector name, in the order of the securities, and the final weight of each row.
\<close>

definition join_sector ::
  "weighted_row list \<Rightarrow> (metrics_row \<times> fl) list \<Rightarrow> merged_row list" where
  "join_sector stock_port_df weights =
     concat (map (\<lambda>s. map (\<lambda>mw.
         \<lparr>m_stock = w_stock s, m_stock_wieght = stock_wieght s,
          m_sector_wieghts = snd mw,
          final_wieght = fmul (stock_wieght s) (snd mw), shares = None\<rparr>)
       (filter (\<lambda>mw. m_sector (fst mw) = sector (w_stock s)) weights)) stock_port_df)"

text \<open>
  Lines 49 and 50: the values written into the column \<open>sector_wieghts\<close>, one per row of
  the metrics table.
\<close>

definition sector_weights :: "metrics_row list \<Rightarrow> fl list" where
  "sector_weights metrics_df_global =
     (let inverse_beta = map (\<lambda>m. fdiv (Fin 1) (avg_beta m)) metrics_df_global
      in map (\<lambda>x. fdiv x (fsum inverse_beta)) inverse_beta)"

text \<open>
  \<open>portfolio_optimization\<close>. The result is the returned table together with the caller's
  \<open>metrics_df_global\<close> as the call leaves it; \<open>stock_port_df\<close> is only rebound to new
  tables inside the call.
\<close>

definition portfolio_optimization ::
  "metrics_row list \<Rightarrow> stock_row list \<Rightarrow> fl \<Rightarrow> int \<Rightarrow>
     (alloc_row list \<times> metrics_row list) option" where
  "portfolio_optimization metrics_df_global stock_port_df total_amount limit =
     (let weights = sector_weights metrics_df_global;
          metrics2 = map2 (\<lambda>m w. m\<lparr>sector_wieghts := Some w\<rparr>) metrics_df_global weights;
          stock_port_df2 =
            groupby_sector_apply (\<lambda>group. extract_stock_wieght group limit) stock_port_df;
          merged_df = join_sector stock_port_df2 (zip metrics_df_global weights)
      in case allocate_funds merged_df total_amount of
           None \<Rightarrow> None
         | Some res \<Rightarrow> Some (sort_values_desc a_shares (fst res), metrics2))"

text \<open>
  \<open>extract_metrics(data_df, None, 'sector')\<close>, the call whose result feeds the portfolio:
  one row per sector, in ascending order of the sector name.
\<close>

definition extract_metrics :: "stock_row list \<Rightarrow> metrics_row list" where
  "extract_metrics data_df =
     map (\<lambda>s. let g = filter (\<lambda>r. sector r = s) data_df
              in \<lparr>m_sector = s,
                  total_market_cap = fsum (map marketCap g),
                  avg_pe = fmean (map trailingPE g),
                  avg_dividend_yield = fmean (map dividendYield g),
                  avg_1y_return = fmean (map week52Change g),
                  avg_beta = fmean (map beta g),
                  sector_wieghts = None\<rparr>)
       (sort (remdups (map sector data_df)))"

text \<open>
  \<open>MainTool.main\<close>. The first argument stands for the table that the call
  \<open>get_sp_500_info()\<close> on line 39 returns; the charts and the report do not enter the
  returned portfolio.
\<close>

definition main :: "stock_row list \<Rightarrow> stock_row list \<Rightarrow> fl \<Rightarrow> int \<Rightarrow> alloc_row list option" where
  "main get_sp_500_info stock_data_df portfolio_amount portfolio_sector_size =
     (let stock_data_df = get_sp_500_info;
          metrics_df_global = extract_metrics stock_data_df
      in map_option fst
           (portfolio_optimization metrics_df_global stock_data_df
              portfolio_amount portfolio_sector_size))"

section \<open>Notions used in the statements and proofs\<close>

text \<open>
  The rows a running total selects: with prices \<open>p\<close>, the rows of \<open>xs\<close> whose running total,
  started at \<open>acc\<close>, is below \<open>res\<close>. On finite prices this is what lines 118 and 119 keep.
\<close>

fun psel :: "real \<Rightarrow> real \<Rightarrow> ('a \<Rightarrow> real) \<Rightarrow> 'a list \<Rightarrow> 'a list" where
  "psel res acc p [] = []"
| "psel res acc p (x # xs) =
     (if acc + p x < res then x # psel res (acc + p x) p xs else psel res (acc + p x) p xs)"

text \<open>The price of a row as a real number (meaningful when the price is finite).\<close>

definition rp :: "merged_row \<Rightarrow> real" where
  "rp r = val (m_price r)"

definition prices_positive :: "merged_row list \<Rightarrow> bool" where
  "prices_positive rows = (\<forall>r\<in>set rows. is_Fin (m_price r) \<and> 0 < val (m_price r))"

definition weights_finite :: "merged_row list \<Rightarrow> bool" where
  "weights_finite rows = (\<forall>r\<in>set rows. is_Fin (final_wieght r))"

text \<open>The floor allocation of a row and the cost of a column of share counts, as reals.\<close>

definition floor_count :: "real \<Rightarrow> merged_row \<Rightarrow> real" where
  "floor_count B r = of_int \<lfloor>B * val (final_wieght r) / rp r\<rfloor>"


text \<open>Concrete tables for the examples.\<close>

definition example_stock :: "string \<Rightarrow> string \<Rightarrow> fl \<Rightarrow> fl \<Rightarrow> stock_row" where
  "example_stock t s p pm =
     \<lparr>ticker = t, sector = s, industry = ''industry'', website = ''website'',
      regularMarketPrice = p, profitMargins = pm, beta = Fin 1, marketCap = Fin 1,
      trailingPE = Fin 1, dividendYield = Fin 1, week52Change = Fin 1\<rparr>"

definition example_candidate :: "string \<Rightarrow> fl \<Rightarrow> fl \<Rightarrow> merged_row" where
  "example_candidate t p w =
     \<lparr>m_stock = example_stock t ''S'' p (Fin 1), m_stock_wieght = Fin 1,
      m_sector_wieghts = w, final_wieght = w, shares = None\<rparr>"

definition example_metrics :: "string \<Rightarrow> fl \<Rightarrow> metrics_row" where
  "example_metrics s b =
     \<lparr>m_sector = s, total_market_cap = Fin 1, avg_pe = Fin 1, avg_dividend_yield = Fin 1,
      avg_1y_return = Fin 1, avg_beta = b, sector_wieghts = None\<rparr>"

definition scenario_B :: "merged_row list" where
  "scenario_B = [example_candidate ''A'' (Fin 300) (Fin (1/2)),
                 example_candidate ''B'' (Fin 400) (Fin (1/2))]"


definition scenario_C :: "merged_row list" where
  "scenario_C = [example_candidate ''A'' (Fin 300) (Fin (1/2))]"

definition residue_300 :: "merged_row list" where
  "residue_300 = [example_candidate ''A'' (Fin 300) (Fin (1/2)),
                  example_candidate ''C'' (Fin 100) (Fin (1/4))]"

definition two_stocks :: "merged_row list" where
  "two_stocks = [example_candidate ''A'' (Fin 1) (Fin (1/4)),
                 example_candidate ''B'' (Fin 2) (Fin (3/4))]"

definition negative_budget :: "merged_row list" where
  "negative_budget = [example_candidate ''A'' (Fin 10) (Fin 1)]"


definition opposite_beta_metrics :: "metrics_row list" where
  "opposite_beta_metrics = [example_metrics ''A'' (Fin 1), example_metrics ''B'' (Fin (- 1))]"

definition positive_beta_metrics :: "metrics_row list" where
  "positive_beta_metrics = [example_metrics ''A'' (Fin 1), example_metrics ''B'' (Fin 2)]"

definition two_sector_stocks :: "stock_row list" where
  "two_sector_stocks = [example_stock ''A1'' ''A'' (Fin 10) (Fin (1/5)),
                        example_stock ''B1'' ''B'' (Fin 20) (Fin (1/10))]"





definition betas_nonzero :: "metrics_row list \<Rightarrow> bool" where
  "betas_nonzero metrics_df_global =
     (\<forall>m\<in>set metrics_df_global. is_Fin (avg_beta m) \<and> val (avg_beta m) \<noteq> 0)"

section \<open>Auxiliary lemmas\<close>

lemma is_Fin_val: "is_Fin x \<Longrightarrow> x = Fin (val x)"
  by (cases x) auto

lemma fsum_Fin: "fsum (map (\<lambda>r. Fin (f r)) xs) = Fin (sum_list (map f xs))"
  by (induction xs) (simp_all add: fsum_def)

lemma fsum_cong_Fin:
  assumes "\<forall>r\<in>set xs. g r = Fin (f r)"
  shows "fsum (map g xs) = Fin (sum_list (map f xs))"
proof -
  have h: "map g xs = map (\<lambda>r. Fin (f r)) xs"
    using assms by (intro map_cong) auto
  show ?thesis by (simp only: h fsum_Fin)
qed

lemma bought_psel:
  "\<forall>x\<in>set xs. m_price x = Fin (p x) \<Longrightarrow>
   map fst (filter (\<lambda>rc. fless (snd rc) (Fin res))
              (zip xs (cumsum_from (Fin acc) (map m_price xs)))) = psel res acc p xs"
  by (induction xs arbitrary: acc) auto

lemma psel_subset: "set (psel res acc p xs) \<subseteq> set xs"
  by (induction xs arbitrary: acc) auto









lemma phase2_step_fin:
  assumes "\<forall>r\<in>set df. is_Fin (m_price r)"
  shows "phase2_step df df_orig (sh, Fin res) =
     (let df_res = filter (\<lambda>r. rp r < res) df
      in if df_res = [] then None
         else Some (map2 (\<lambda>r s. if m_ticker r \<in> m_ticker ` set (psel res 0 rp df_res)
                                  then fadd s (Fin 1) else s) df_orig sh,
                    Fin (res - sum_list (map rp (psel res 0 rp df_res)))))"
proof -
  have pr: "\<And>r. r \<in> set df \<Longrightarrow> m_price r = Fin (rp r)"
    using assms by (simp add: rp_def is_Fin_val)
  have f1: "filter (\<lambda>r. fless (m_price r) (Fin res)) df = filter (\<lambda>r. rp r < res) df"
    by (intro filter_cong) (auto simp: pr)
  define df_res where "df_res = filter (\<lambda>r. rp r < res) df"
  have sub: "\<forall>x\<in>set df_res. m_price x = Fin (rp x)"
    by (auto simp: df_res_def pr)
  have b: "map fst (filter (\<lambda>rc. fless (snd rc) (Fin res))
              (zip df_res (cumsum (map m_price df_res)))) = psel res 0 rp df_res"
    unfolding cumsum_def using bought_psel [OF sub] by simp
  have sub2: "\<forall>x\<in>set (psel res 0 rp df_res). m_price x = Fin (rp x)"
    using sub psel_subset [of res 0 rp df_res] by auto
  have s: "fsum (map m_price (psel res 0 rp df_res))
            = Fin (sum_list (map rp (psel res 0 rp df_res)))"
    by (rule fsum_cong_Fin [OF sub2])
  show ?thesis
    unfolding phase2_step_def Let_def fst_conv snd_conv f1 df_res_def [symmetric] b s fsub_def
    by simp
qed



lemma phase1_shares_fin:
  assumes "is_Fin (m_price r)" "0 < val (m_price r)" "is_Fin (final_wieght r)"
  shows "phase1_shares (Fin B) r = Fin (floor_count B r)"
proof -
  obtain p w where "m_price r = Fin p" "final_wieght r = Fin w"
    using assms by (cases "m_price r"; cases "final_wieght r") auto
  with assms(2) show ?thesis
    by (simp add: phase1_shares_def floor_count_def rp_def)
qed


lemma phase1_residue_fin:
  assumes pp: "prices_positive df" and wf: "weights_finite df"
  shows "phase1_residue df (Fin B) = Fin (B - sum_list (map (\<lambda>r. floor_count B r * rp r) df))"
proof -
  have "\<forall>r\<in>set df. fmul (phase1_shares (Fin B) r) (m_price r) = Fin (floor_count B r * rp r)"
  proof
    fix r assume r: "r \<in> set df"
    then have a: "is_Fin (m_price r)" "0 < val (m_price r)" "is_Fin (final_wieght r)"
      using pp wf by (auto simp: prices_positive_def weights_finite_def)
    have "m_price r = Fin (rp r)" using a(1) by (simp add: rp_def is_Fin_val)
    then show "fmul (phase1_shares (Fin B) r) (m_price r) = Fin (floor_count B r * rp r)"
      using phase1_shares_fin [OF a, of B] by simp
  qed
  then have "fsum (map (\<lambda>r. fmul (phase1_shares (Fin B) r) (m_price r)) df)
      = Fin (sum_list (map (\<lambda>r. floor_count B r * rp r) df))"
    by (rule fsum_cong_Fin)
  then show ?thesis by (simp add: phase1_residue_def fsub_def)
qed




lemma sort_values_desc_set: "set (sort_values_desc col df) = set df"
  by (simp add: sort_values_desc_def)







lemma map2_to_alloc_ticker:
  "length sh = length rows \<Longrightarrow> map ticker_symbol (map2 to_alloc_row rows sh) = map m_ticker rows"
  by (induction sh rows rule: list_induct2) (simp_all add: to_alloc_row_def)

lemma fless_irrefl: "\<not> fless x x"
  by (cases x) auto


lemma sum_list_divide_const:
  fixes f :: "'a \<Rightarrow> real"
  shows "sum_list (map (\<lambda>x. f x / c) xs) = sum_list (map f xs) / c"
  by (induction xs) (simp_all add: add_divide_distrib)



lemma phase2_step_length:
  "phase2_step df df_orig s = Some s2 \<Longrightarrow> length (fst s) = length df_orig \<Longrightarrow>
   length (fst s2) = length df_orig"
  by (auto simp: phase2_step_def Let_def split: if_splits)

lemma phase2_loop_length:
  assumes "phase2_loop df df_orig s = Some s2"
  shows "length (fst s) = length df_orig \<longrightarrow> length (fst s2) = length df_orig"
proof (rule phase2_loop.raw_induct [OF _ assms])
  fix f df df_orig s y
  assume ih: "\<And>a b c y. f a b c = Some y \<Longrightarrow> length (fst c) = length b \<longrightarrow> length (fst y) = length b"
    and st: "(case phase2_step df df_orig s of None \<Rightarrow> Some s | Some s2 \<Rightarrow> f df df_orig s2) = Some y"
  show "length (fst s) = length df_orig \<longrightarrow> length (fst y) = length df_orig"
  proof (cases "phase2_step df df_orig s")
    case None
    then show ?thesis using st by simp
  next
    case (Some s1)
    then have "f df df_orig s1 = Some y" using st by simp
    then show ?thesis
      using ih phase2_step_length [OF Some] by blast
  qed
qed

section \<open>The claims\<close>


lemma scenario_B_ok:
  "distinct (map m_ticker scenario_B) \<and> prices_positive scenario_B \<and> weights_finite scenario_B
   \<and> fle (fsum (map final_wieght scenario_B)) (Fin 1)"
  by code_simp






lemma scenario_C_run:
  "phase1_residue (sort_values_desc final_wieght scenario_C) (Fin 300) = Fin 300
   \<and> map_option (\<lambda>res. map a_shares (fst res)) (allocate_funds scenario_C (Fin 300)) = Some [Fin 0]"
  by code_simp

text \<open>
  C4. A candidate whose price equals the current residue is not bought in that pass of
  the loop: its entry of the shares column is the same after the pass. In the scenario of
  a single candidate priced 300 and the budget 300, the floor allocation leaves the
  residue 300 and the candidate ends with no share.
\<close>

theorem price_equal_to_residue_not_bought:
  "(distinct (map m_ticker df_orig) \<and> length shares_col = length df_orig
      \<and> i < length df_orig \<and> m_price (df_orig ! i) = residue
      \<and> phase2_step (sort_values_desc final_wieght df_orig) df_orig (shares_col, residue)
          = Some (shares_col2, residue2)
    \<longrightarrow> shares_col2 ! i = shares_col ! i)
   \<and> phase1_residue (sort_values_desc final_wieght scenario_C) (Fin 300) = Fin 300
   \<and> map_option (\<lambda>res. map a_shares (fst res)) (allocate_funds scenario_C (Fin 300)) = Some [Fin 0]"
proof -
  have "shares_col2 ! i = shares_col ! i"
    if dt: "distinct (map m_ticker df_orig)" and len: "length shares_col = length df_orig"
      and i: "i < length df_orig" and pr: "m_price (df_orig ! i) = residue"
      and st: "phase2_step (sort_values_desc final_wieght df_orig) df_orig (shares_col, residue)
          = Some (shares_col2, residue2)"
  proof -
    define df where "df = sort_values_desc final_wieght df_orig"
    define df_res where "df_res = filter (\<lambda>r. fless (m_price r) residue) df"
    define df_res2 where "df_res2 = map fst (filter (\<lambda>rc. fless (snd rc) residue)
        (zip df_res (cumsum (map m_price df_res))))"
    have s2: "shares_col2 = map2 (\<lambda>r sh. if m_ticker r \<in> set (map m_ticker df_res2)
                                then fadd sh (Fin 1) else sh) df_orig shares_col"
      using st unfolding phase2_step_def Let_def df_def [symmetric] fst_conv snd_conv
        df_res_def [symmetric] df_res2_def [symmetric]
      by (simp split: if_splits)
    have sub: "set df_res2 \<subseteq> set df_res"
      by (auto simp: df_res2_def dest: set_zip_leftD)
    have notin: "m_ticker (df_orig ! i) \<notin> set (map m_ticker df_res2)"
    proof
      assume "m_ticker (df_orig ! i) \<in> set (map m_ticker df_res2)"
      then obtain x where x: "x \<in> set df_res2" "m_ticker x = m_ticker (df_orig ! i)" by auto
      then have xr: "x \<in> set df_res" using sub by auto
      then have xin: "x \<in> set df_orig" and xl: "fless (m_price x) residue"
        by (auto simp: df_res_def df_def sort_values_desc_def)
      have "inj_on m_ticker (set df_orig)" using dt by (simp add: distinct_map)
      then have "x = df_orig ! i"
        using xin x(2) i by (auto dest: inj_onD)
      then show False using xl pr fless_irrefl by simp
    qed
    show ?thesis
      using notin i len by (simp add: s2)
  qed
  then show ?thesis using scenario_C_run by blast
qed

lemma residue_300_step:
  "distinct (map m_ticker residue_300) \<and> length [Fin 0, Fin 0] = length residue_300
      \<and> (0::nat) < length residue_300 \<and> m_price (residue_300 ! 0) = Fin 300
      \<and> phase2_step (sort_values_desc final_wieght residue_300) residue_300 ([Fin 0, Fin 0], Fin 300)
          = Some ([Fin 0, Fin 1], Fin 200)"
  by code_simp

theorem price_equal_to_residue_not_bought_witness:
  "distinct (map m_ticker residue_300) \<and> length [Fin 0, Fin 0] = length residue_300
      \<and> (0::nat) < length residue_300 \<and> m_price (residue_300 ! 0) = Fin 300
      \<and> phase2_step (sort_values_desc final_wieght residue_300) residue_300 ([Fin 0, Fin 0], Fin 300)
          = Some ([Fin 0, Fin 1], Fin 200)
      \<and> [Fin 0, Fin 1] ! 0 = [Fin 0, Fin 0 :: fl] ! 0"
  using residue_300_step
    price_equal_to_residue_not_bought [of residue_300 "[Fin 0, Fin 0]" 0 "Fin 300"
      "[Fin 0, Fin 1]" "Fin 200"]
  by blast

text \<open>
  C7. The claim says that no share count decreases when the budget grows. With candidate
  A (price 1, weight 1/4) and candidate B (price 2, weight 3/4), the budget 2 gives A one
  share and the budget 3 gives A none: at budget 3 the floor allocation buys B, and the
  residue 1 no longer exceeds the price of A.
\<close>

theorem shares_not_monotone_in_budget:
  "map_option (\<lambda>res. map a_shares (fst res)) (allocate_funds two_stocks (Fin 2))
     = Some [Fin 1, Fin 0]
   \<and> map_option (\<lambda>res. map a_shares (fst res)) (allocate_funds two_stocks (Fin 3))
     = Some [Fin 0, Fin 1]"
  by code_simp

text \<open>
  C7, as amended. The floor allocation alone is monotone in the budget: for a positive
  finite price and a non-negative finite weight, a larger budget never gives a candidate
  a smaller floor count.
\<close>

theorem phase1_shares_monotone:
  assumes "is_Fin (m_price r)" "0 < val (m_price r)"
    and "is_Fin (final_wieght r)" "0 \<le> val (final_wieght r)"
    and "B1 < B2"
  shows "fle (phase1_shares (Fin B1) r) (phase1_shares (Fin B2) r)"
proof -
  have "B1 * val (final_wieght r) / rp r \<le> B2 * val (final_wieght r) / rp r"
    using assms by (intro divide_right_mono mult_right_mono) (auto simp: rp_def)
  then have "floor_count B1 r \<le> floor_count B2 r"
    unfolding floor_count_def by (simp add: floor_mono)
  then show ?thesis
    using phase1_shares_fin [OF assms(1,2,3)] by simp
qed

theorem phase1_shares_monotone_witness:
  "is_Fin (m_price (example_candidate ''B'' (Fin 2) (Fin (3/4))))
   \<and> 0 < val (m_price (example_candidate ''B'' (Fin 2) (Fin (3/4))))
   \<and> is_Fin (final_wieght (example_candidate ''B'' (Fin 2) (Fin (3/4))))
   \<and> 0 \<le> val (final_wieght (example_candidate ''B'' (Fin 2) (Fin (3/4))))
   \<and> (2::real) < 3
   \<and> fle (phase1_shares (Fin 2) (example_candidate ''B'' (Fin 2) (Fin (3/4))))
          (phase1_shares (Fin 3) (example_candidate ''B'' (Fin 2) (Fin (3/4))))"
proof -
  have h: "is_Fin (m_price (example_candidate ''B'' (Fin 2) (Fin (3/4))))"
    "0 < val (m_price (example_candidate ''B'' (Fin 2) (Fin (3/4))))"
    "is_Fin (final_wieght (example_candidate ''B'' (Fin 2) (Fin (3/4))))"
    "0 \<le> val (final_wieght (example_candidate ''B'' (Fin 2) (Fin (3/4))))"
    by (simp_all add: example_candidate_def example_stock_def m_price_def)
  have b: "(2::real) < 3" by simp
  show ?thesis
    using h b phase1_shares_monotone [OF h b] by simp
qed

text \<open>
  C8. The claim says that a budget below or equal to 0 gives every candidate 0 shares.
  With the budget -100, one candidate of price 10 and weight 1 receives
  \<open>floor(-100 / 10) = -10\<close> shares.
\<close>

theorem negative_budget_negative_shares:
  "prices_positive negative_budget \<and> weights_finite negative_budget
   \<and> map_option (\<lambda>res. map a_shares (fst res)) (allocate_funds negative_budget (Fin (- 100)))
     = Some [Fin (- 10)]"
  by code_simp

text \<open>
  C8, as amended. With the budget 0, positive finite prices and finite weights,
  \<open>allocate_funds\<close> returns a row per candidate, each with 0 shares.
\<close>

theorem zero_budget_zero_shares:
  assumes pp: "prices_positive df_orig" and wf: "weights_finite df_orig"
  shows "\<exists>out df2. allocate_funds df_orig (Fin 0) = Some (out, df2)
           \<and> map ticker_symbol out = map m_ticker df_orig
           \<and> (\<forall>a\<in>set out. a_shares a = Fin 0)"
proof -
  define df where "df = sort_values_desc final_wieght df_orig"
  have sd: "set df = set df_orig" by (simp add: df_def sort_values_desc_set)
  have ppd: "prices_positive df" using pp sd by (simp add: prices_positive_def)
  have wfd: "weights_finite df" using wf sd by (simp add: weights_finite_def)
  have fc: "\<And>r. floor_count 0 r = 0" by (simp add: floor_count_def)
  have sh: "map (phase1_shares (Fin 0)) df_orig = map (\<lambda>r. Fin 0) df_orig"
  proof (intro map_cong refl)
    fix r assume "r \<in> set df_orig"
    then have a: "is_Fin (m_price r)" "0 < val (m_price r)" "is_Fin (final_wieght r)"
      using pp wf by (auto simp: prices_positive_def weights_finite_def)
    show "phase1_shares (Fin 0) r = Fin 0"
      using phase1_shares_fin [OF a, of 0] by (simp add: fc)
  qed
  have res: "phase1_residue df (Fin 0) = Fin 0"
    using phase1_residue_fin [OF ppd wfd, of 0] by (simp add: fc)
  have pf: "\<forall>r\<in>set df. is_Fin (m_price r)"
    using ppd by (simp add: prices_positive_def)
  have "filter (\<lambda>r. rp r < 0) df = []"
    using ppd by (auto simp: prices_positive_def rp_def filter_empty_conv)
  then have st: "phase2_step df df_orig (map (\<lambda>r. Fin 0) df_orig, Fin 0) = None"
    using phase2_step_fin [OF pf, of df_orig "map (\<lambda>r. Fin 0) df_orig" 0] by simp
  have lp: "phase2_loop df df_orig (map (\<lambda>r. Fin 0) df_orig, Fin 0)
      = Some (map (\<lambda>r. Fin 0) df_orig, Fin 0)"
    by (subst phase2_loop.simps) (simp add: st)
  have al: "allocate_funds df_orig (Fin 0)
      = Some (map2 to_alloc_row df_orig (map (\<lambda>r. Fin 0) df_orig),
              map2 (\<lambda>r sh. r\<lparr>shares := Some sh\<rparr>) df_orig (map (\<lambda>r. Fin 0) df_orig))"
    unfolding allocate_funds_def Let_def df_def [symmetric] sh res lp by simp
  have tk: "map ticker_symbol (map2 to_alloc_row df_orig (map (\<lambda>r. Fin 0) df_orig))
      = map m_ticker df_orig"
    by (rule map2_to_alloc_ticker) simp
  have z: "\<forall>a\<in>set (map2 to_alloc_row df_orig (map (\<lambda>r. Fin 0) df_orig)). a_shares a = Fin 0"
    by (auto simp: to_alloc_row_def zip_map2)
  show ?thesis using al tk z by blast
qed

theorem zero_budget_zero_shares_witness:
  "prices_positive scenario_B \<and> weights_finite scenario_B
   \<and> (\<exists>out df2. allocate_funds scenario_B (Fin 0) = Some (out, df2)
           \<and> map ticker_symbol out = map m_ticker scenario_B
           \<and> (\<forall>a\<in>set out. a_shares a = Fin 0))"
proof -
  have h: "prices_positive scenario_B" "weights_finite scenario_B"
    using scenario_B_ok by simp_all
  show ?thesis
    using h zero_budget_zero_shares [OF h] by simp
qed





text \<open>
  C5. The claim says that the sector weights sum to 1 whenever every average beta is
  defined and not zero. For the betas 1 and -1 the inverse betas sum to 0, the weights
  are plus and minus infinity, and their sum is NaN.
\<close>

theorem opposite_betas_weights_sum:
  "betas_nonzero opposite_beta_metrics
   \<and> sector_weights opposite_beta_metrics = [PInf, NInf]
   \<and> fsum (sector_weights opposite_beta_metrics) = NaN"
  by code_simp

text \<open>
  C5, as amended. When every average beta is finite and not zero and the inverse betas
  do not sum to 0 (as when all betas are positive), the sector weights sum to 1.
\<close>

theorem sector_weights_sum_to_one:
  assumes bn: "betas_nonzero metrics_df_global"
    and tot: "sum_list (map (\<lambda>m. 1 / val (avg_beta m)) metrics_df_global) \<noteq> 0"
  shows "fsum (sector_weights metrics_df_global) = Fin 1"
proof -
  define S where "S = sum_list (map (\<lambda>m. 1 / val (avg_beta m)) metrics_df_global)"
  have nz: "\<forall>m\<in>set metrics_df_global. is_Fin (avg_beta m) \<and> val (avg_beta m) \<noteq> 0"
    using bn by (simp add: betas_nonzero_def)
  have each: "\<forall>m\<in>set metrics_df_global. fdiv (Fin 1) (avg_beta m) = Fin (1 / val (avg_beta m))"
  proof
    fix m assume "m \<in> set metrics_df_global"
    then obtain b where "avg_beta m = Fin b" "b \<noteq> 0"
      using nz by (cases "avg_beta m") auto
    then show "fdiv (Fin 1) (avg_beta m) = Fin (1 / val (avg_beta m))" by simp
  qed
  then have s: "fsum (map (\<lambda>m. fdiv (Fin 1) (avg_beta m)) metrics_df_global) = Fin S"
    unfolding S_def by (rule fsum_cong_Fin)
  have "\<forall>m\<in>set metrics_df_global.
      fdiv (fdiv (Fin 1) (avg_beta m)) (Fin S) = Fin (1 / val (avg_beta m) / S)"
    using each tot by (simp add: S_def)
  then have "fsum (map (\<lambda>m. fdiv (fdiv (Fin 1) (avg_beta m)) (Fin S)) metrics_df_global)
      = Fin (sum_list (map (\<lambda>m. 1 / val (avg_beta m) / S) metrics_df_global))"
    by (rule fsum_cong_Fin)
  also have "\<dots> = Fin (S / S)"
    by (simp only: sum_list_divide_const S_def [symmetric])
  also have "\<dots> = Fin 1" using tot by (simp add: S_def)
  finally show ?thesis
    unfolding sector_weights_def Let_def s map_map comp_def .
qed

lemma positive_beta_metrics_ok:
  "betas_nonzero positive_beta_metrics
   \<and> sum_list (map (\<lambda>m. 1 / val (avg_beta m)) positive_beta_metrics) \<noteq> 0"
  by code_simp

theorem sector_weights_sum_to_one_witness:
  "betas_nonzero positive_beta_metrics
   \<and> sum_list (map (\<lambda>m. 1 / val (avg_beta m)) positive_beta_metrics) \<noteq> 0
   \<and> fsum (sector_weights positive_beta_metrics) = Fin 1"
proof -
  have h: "betas_nonzero positive_beta_metrics"
    "sum_list (map (\<lambda>m. 1 / val (avg_beta m)) positive_beta_metrics) \<noteq> 0"
    using positive_beta_metrics_ok by simp_all
  show ?thesis
    using h sector_weights_sum_to_one [OF h] by simp
qed




text \<open>
  C9. The claim says that the tables passed to \<open>portfolio_optimization\<close> and
  \<open>allocate_funds\<close> are unchanged after the call. Line 50 writes the column
  \<open>sector_wieghts\<close> into the caller's metrics table, and lines 102 and 121 write the column
  \<open>shares\<close> into the table given to \<open>allocate_funds\<close>: both columns are absent before the
  call and present after it.
\<close>

theorem tables_are_mutated:
  "map sector_wieghts positive_beta_metrics = [None, None]
   \<and> map_option (\<lambda>res. map sector_wieghts (snd res))
        (portfolio_optimization positive_beta_metrics two_sector_stocks (Fin 100) 10)
       = Some [Some (Fin (2/3)), Some (Fin (1/3))]
   \<and> map shares scenario_B = [None, None]
   \<and> map_option (\<lambda>res. map shares (snd res)) (allocate_funds scenario_B (Fin 1000))
       = Some [Some (Fin 1), Some (Fin 1)]"
  by code_simp

text \<open>
  C9, as amended. \<open>portfolio_optimization\<close> changes the caller's metrics table only in
  the column \<open>sector_wieghts\<close>, which holds the sector weights after the call, and
  \<open>allocate_funds\<close> changes the table it is given only in the column \<open>shares\<close>, which holds
  the returned share counts after the call. The security table is only read.
\<close>

theorem only_derived_columns_are_written:
  "(portfolio_optimization metrics_df_global stock_port_df total_amount limit = Some (out, metrics2)
      \<longrightarrow> map (\<lambda>m. m\<lparr>sector_wieghts := None\<rparr>) metrics2
            = map (\<lambda>m. m\<lparr>sector_wieghts := None\<rparr>) metrics_df_global
          \<and> map sector_wieghts metrics2 = map Some (sector_weights metrics_df_global))
   \<and> (allocate_funds df_orig total_amount2 = Some (out2, df_orig2)
      \<longrightarrow> map (\<lambda>r. r\<lparr>shares := None\<rparr>) df_orig2 = map (\<lambda>r. r\<lparr>shares := None\<rparr>) df_orig
          \<and> map (\<lambda>r. Some (a_shares r)) out2 = map shares df_orig2)"
proof -
  have len: "length (sector_weights metrics_df_global) = length metrics_df_global"
    by (simp add: sector_weights_def Let_def)
  have m1: "\<And>ws. length ws = length metrics_df_global \<Longrightarrow>
      map (\<lambda>m. m\<lparr>sector_wieghts := None\<rparr>) (map2 (\<lambda>m w. m\<lparr>sector_wieghts := Some w\<rparr>) metrics_df_global ws)
        = map (\<lambda>m. m\<lparr>sector_wieghts := None\<rparr>) metrics_df_global
      \<and> map sector_wieghts (map2 (\<lambda>m w. m\<lparr>sector_wieghts := Some w\<rparr>) metrics_df_global ws)
        = map Some ws"
  proof -
    fix ws :: "fl list"
    assume "length ws = length metrics_df_global"
    then show "map (\<lambda>m. m\<lparr>sector_wieghts := None\<rparr>) (map2 (\<lambda>m w. m\<lparr>sector_wieghts := Some w\<rparr>) metrics_df_global ws)
        = map (\<lambda>m. m\<lparr>sector_wieghts := None\<rparr>) metrics_df_global
      \<and> map sector_wieghts (map2 (\<lambda>m w. m\<lparr>sector_wieghts := Some w\<rparr>) metrics_df_global ws)
        = map Some ws"
      by (induction ws metrics_df_global rule: list_induct2) simp_all
  qed
  have p: "map (\<lambda>m. m\<lparr>sector_wieghts := None\<rparr>) metrics2
            = map (\<lambda>m. m\<lparr>sector_wieghts := None\<rparr>) metrics_df_global
          \<and> map sector_wieghts metrics2 = map Some (sector_weights metrics_df_global)"
    if "portfolio_optimization metrics_df_global stock_port_df total_amount limit = Some (out, metrics2)"
  proof -
    have "metrics2 = map2 (\<lambda>m w. m\<lparr>sector_wieghts := Some w\<rparr>) metrics_df_global
        (sector_weights metrics_df_global)"
      using that by (auto simp: portfolio_optimization_def Let_def split: option.splits)
    then show ?thesis using m1 [OF len] by simp
  qed
  have a: "map (\<lambda>r. r\<lparr>shares := None\<rparr>) df_orig2 = map (\<lambda>r. r\<lparr>shares := None\<rparr>) df_orig
          \<and> map (\<lambda>r. Some (a_shares r)) out2 = map shares df_orig2"
    if al: "allocate_funds df_orig total_amount2 = Some (out2, df_orig2)"
  proof -
    define df where "df = sort_values_desc final_wieght df_orig"
    define s0 where "s0 = (map (phase1_shares total_amount2) df_orig, phase1_residue df total_amount2)"
    obtain s where s: "phase2_loop df df_orig s0 = Some s"
      and o: "out2 = map2 to_alloc_row df_orig (fst s)"
      and d: "df_orig2 = map2 (\<lambda>r sh. r\<lparr>shares := Some sh\<rparr>) df_orig (fst s)"
      using al unfolding allocate_funds_def Let_def df_def [symmetric] s0_def [symmetric]
      by (auto split: option.splits)
    have "length (fst s0) = length df_orig" by (simp add: s0_def)
    then have l: "length (fst s) = length df_orig"
      using phase2_loop_length [OF s] by simp
    have "\<And>sh. length sh = length df_orig \<Longrightarrow>
        map (\<lambda>r. r\<lparr>shares := None\<rparr>) (map2 (\<lambda>r sh. r\<lparr>shares := Some sh\<rparr>) df_orig sh)
          = map (\<lambda>r. r\<lparr>shares := None\<rparr>) df_orig
        \<and> map (\<lambda>r. Some (a_shares r)) (map2 to_alloc_row df_orig sh)
          = map shares (map2 (\<lambda>r sh. r\<lparr>shares := Some sh\<rparr>) df_orig sh)"
    proof -
      fix sh :: "fl list"
      assume "length sh = length df_orig"
      then show "map (\<lambda>r. r\<lparr>shares := None\<rparr>) (map2 (\<lambda>r sh. r\<lparr>shares := Some sh\<rparr>) df_orig sh)
          = map (\<lambda>r. r\<lparr>shares := None\<rparr>) df_orig
        \<and> map (\<lambda>r. Some (a_shares r)) (map2 to_alloc_row df_orig sh)
          = map shares (map2 (\<lambda>r sh. r\<lparr>shares := Some sh\<rparr>) df_orig sh)"
        by (induction sh df_orig rule: list_induct2) (simp_all add: to_alloc_row_def)
    qed
    then show ?thesis using l o d by simp
  qed
  show ?thesis using p a by blast
qed

lemma tables_run:
  "portfolio_optimization positive_beta_metrics two_sector_stocks (Fin 100) 10
     = Some ([\<lparr>ticker_symbol = ''A1'', a_industry = ''industry'', a_sector = ''A'',
                a_website = ''website'', a_shares = Fin 7, a_price = Fin 10\<rparr>,
              \<lparr>ticker_symbol = ''B1'', a_industry = ''industry'', a_sector = ''B'',
                a_website = ''website'', a_shares = Fin 1, a_price = Fin 20\<rparr>],
             [(example_metrics ''A'' (Fin 1))\<lparr>sector_wieghts := Some (Fin (2/3))\<rparr>,
              (example_metrics ''B'' (Fin 2))\<lparr>sector_wieghts := Some (Fin (1/3))\<rparr>])
   \<and> allocate_funds scenario_B (Fin 1000)
     = Some ([\<lparr>ticker_symbol = ''A'', a_industry = ''industry'', a_sector = ''S'',
                a_website = ''website'', a_shares = Fin 1, a_price = Fin 300\<rparr>,
              \<lparr>ticker_symbol = ''B'', a_industry = ''industry'', a_sector = ''S'',
                a_website = ''website'', a_shares = Fin 1, a_price = Fin 400\<rparr>],
             map (\<lambda>r. r\<lparr>shares := Some (Fin 1)\<rparr>) scenario_B)"
  by code_simp

theorem only_derived_columns_are_written_witness:
  "portfolio_optimization positive_beta_metrics two_sector_stocks (Fin 100) 10
     = Some ([\<lparr>ticker_symbol = ''A1'', a_industry = ''industry'', a_sector = ''A'',
                a_website = ''website'', a_shares = Fin 7, a_price = Fin 10\<rparr>,
              \<lparr>ticker_symbol = ''B1'', a_industry = ''industry'', a_sector = ''B'',
                a_website = ''website'', a_shares = Fin 1, a_price = Fin 20\<rparr>],
             [(example_metrics ''A'' (Fin 1))\<lparr>sector_wieghts := Some (Fin (2/3))\<rparr>,
              (example_metrics ''B'' (Fin 2))\<lparr>sector_wieghts := Some (Fin (1/3))\<rparr>])
   \<and> allocate_funds scenario_B (Fin 1000)
     = Some ([\<lparr>ticker_symbol = ''A'', a_industry = ''industry'', a_sector = ''S'',
                a_website = ''website'', a_shares = Fin 1, a_price = Fin 300\<rparr>,
              \<lparr>ticker_symbol = ''B'', a_industry = ''industry'', a_sector = ''S'',
                a_website = ''website'', a_shares = Fin 1, a_price = Fin 400\<rparr>],
             map (\<lambda>r. r\<lparr>shares := Some (Fin 1)\<rparr>) scenario_B)
   \<and> map (\<lambda>m. m\<lparr>sector_wieghts := None\<rparr>)
         [(example_metrics ''A'' (Fin 1))\<lparr>sector_wieghts := Some (Fin (2/3))\<rparr>,
          (example_metrics ''B'' (Fin 2))\<lparr>sector_wieghts := Some (Fin (1/3))\<rparr>]
       = map (\<lambda>m. m\<lparr>sector_wieghts := None\<rparr>) positive_beta_metrics
   \<and> map (\<lambda>r. r\<lparr>shares := None\<rparr>) (map (\<lambda>r. r\<lparr>shares := Some (Fin 1)\<rparr>) scenario_B)
       = map (\<lambda>r. r\<lparr>shares := None\<rparr>) scenario_B"
  using tables_run
    only_derived_columns_are_written [of positive_beta_metrics two_sector_stocks "Fin 100" 10
      "[\<lparr>ticker_symbol = ''A1'', a_industry = ''industry'', a_sector = ''A'',
                a_website = ''website'', a_shares = Fin 7, a_price = Fin 10\<rparr>,
              \<lparr>ticker_symbol = ''B1'', a_industry = ''industry'', a_sector = ''B'',
                a_website = ''website'', a_shares = Fin 1, a_price = Fin 20\<rparr>]"
      "[(example_metrics ''A'' (Fin 1))\<lparr>sector_wieghts := Some (Fin (2/3))\<rparr>,
              (example_metrics ''B'' (Fin 2))\<lparr>sector_wieghts := Some (Fin (1/3))\<rparr>]"
      scenario_B "Fin 1000"
      "[\<lparr>ticker_symbol = ''A'', a_industry = ''industry'', a_sector = ''S'',
                a_website = ''website'', a_shares = Fin 1, a_price = Fin 300\<rparr>,
              \<lparr>ticker_symbol = ''B'', a_industry = ''industry'', a_sector = ''S'',
                a_website = ''website'', a_shares = Fin 1, a_price = Fin 400\<rparr>]"
      "map (\<lambda>r. r\<lparr>shares := Some (Fin 1)\<rparr>) scenario_B"]
  by blast

text \<open>
  C10. The portfolio returned by \<open>MainTool.main\<close> does not depend on its argument
  \<open>stock_data_df\<close>: line 39 replaces it by the fetched table before anything reads it.
\<close>

theorem main_ignores_stock_data_df:
  "main get_sp_500_info stock_data_df1 portfolio_amount portfolio_sector_size
   = main get_sp_500_info stock_data_df2 portfolio_amount portfolio_sector_size"
  by (simp add: main_def)

end
